theory Spec2Isabelle
  imports Complex_Main "HOL-Library.Char_ord" "HOL-Library.List_Lexorder"
begin

section \<open>Language-identification notebooks: data handling and evaluation glue\<close>

text \<open>
  The repository holds two notebooks. Both define \<^verbatim>\<open>load_data_sample\<close> and
  \<^verbatim>\<open>load_datasets\<close>; the BERT notebook builds the label indexer
  (\<^verbatim>\<open>lang2idx\<close>, \<^verbatim>\<open>encode_labels\<close>, \<^verbatim>\<open>label_to_index\<close>,
  \<^verbatim>\<open>index_to_language\<close>); the TF-IDF / Word2Vec notebook defines
  \<^verbatim>\<open>word2vec_transform\<close>, \<^verbatim>\<open>predict_language\<close>,
  \<^verbatim>\<open>train_and_tune_model\<close> and \<^verbatim>\<open>predict_and_evaluate\<close>.

  Python exceptions are values of \<open>py_error\<close>; a function that may raise returns
  \<open>py_error + 'a\<close> with \<open>Inl\<close> the exception. Library calls (the \<^verbatim>\<open>random\<close>
  module, NLTK, gensim, scikit-learn) are not code of the repository: they are
  parameters of the functions that call them.
\<close>

subsection \<open>Exceptions and strings\<close>

datatype py_error =
  FileNotFoundError | ValueError | IndexError | KeyError | NameError

text \<open>
  \<^verbatim>\<open>str.strip()\<close> without argument removes leading and trailing whitespace.
  Characters are bytes here, so the whitespace recognised is the ASCII part of
  what \<^verbatim>\<open>str.isspace\<close> accepts: tab, line feed, vertical tab, form feed,
  carriage return, the four separators \<open>0x1C\<close> to \<open>0x1F\<close>, and space.
\<close>

definition py_isspace :: "char \<Rightarrow> bool" where
  "py_isspace c =
     (let n = (of_char c :: nat) in (9 \<le> n \<and> n \<le> 13) \<or> (28 \<le> n \<and> n \<le> 32))"

definition strip :: "string \<Rightarrow> string" where
  "strip s = rev (dropWhile py_isspace (rev (dropWhile py_isspace s)))"

subsection \<open>The random module and the file system\<close>

text \<open>
  The global generator of Python's \<^verbatim>\<open>random\<close> module is a state of type \<open>'g\<close>.
  \<^verbatim>\<open>random.seed(a)\<close> replaces the state by one computed from \<open>a\<close> alone;
  \<^verbatim>\<open>random.sample(range(N), k)\<close> reads the state, advances it, and either raises or
  returns a list of elements of \<open>range(N)\<close>.
\<close>

record 'g random_module =
  rnd_seed :: "int \<Rightarrow> 'g"
  rnd_sample :: "'g \<Rightarrow> nat \<Rightarrow> int \<Rightarrow> (py_error + nat list) \<times> 'g"

text \<open>
  What the standard library documents for \<^verbatim>\<open>random.sample(population, k)\<close>:
  a \<^verbatim>\<open>ValueError\<close> when \<open>k\<close> is negative or larger than the population, and
  otherwise \<open>k\<close> elements chosen without replacement.
\<close>

definition sample_contract :: "'g random_module \<Rightarrow> bool" where
  "sample_contract R \<longleftrightarrow>
     (\<forall>g N k.
        if 0 \<le> k \<and> k \<le> int N
        then \<exists>idxs. fst (rnd_sample R g N k) = Inr idxs \<and> length idxs = nat k
               \<and> distinct idxs \<and> set idxs \<subseteq> {..<N}
        else fst (rnd_sample R g N k) = Inl ValueError)"

text \<open>
  A file system maps a path to the result of \<^verbatim>\<open>readlines()\<close> on that file: its
  lines, each with its line terminator.
\<close>

type_synonym file_system = "string \<rightharpoonup> string list"

subsection \<open>load\_data\_sample and load\_datasets\<close>

text \<open>
  The comprehension \<^verbatim>\<open>[lines[i].strip() for i in sampled_indices]\<close>. The indices
  are non-negative; an index past the end raises \<^verbatim>\<open>IndexError\<close>.
\<close>

fun sampled_lines :: "string list \<Rightarrow> nat list \<Rightarrow> py_error + string list" where
  "sampled_lines lines [] = Inr []"
| "sampled_lines lines (i # rest) =
     (if i < length lines
      then (case sampled_lines lines rest of
              Inl e \<Rightarrow> Inl e
            | Inr out \<Rightarrow> Inr (strip (lines ! i) # out))
      else Inl IndexError)"

text \<open>
  \<^verbatim>\<open>load_data_sample(filepath, sample_size, random_state)\<close>. The two notebooks
  differ only in the default of \<open>sample_size\<close> (10 and 25000); the default of
  \<open>random_state\<close> is 42 in both. The generator state before the call is \<open>g\<close>, the
  state after it is returned with the result.
\<close>

definition load_data_sample ::
  "'g random_module \<Rightarrow> file_system \<Rightarrow> 'g \<Rightarrow> string \<Rightarrow> int \<Rightarrow> int
     \<Rightarrow> (py_error + string list) \<times> 'g" where
  "load_data_sample R fs g filepath sample_size random_state =
     (case fs filepath of
        None \<Rightarrow> (Inl FileNotFoundError, g)
      | Some lines \<Rightarrow>
          (let g1 = rnd_seed R random_state;
               (sampled_indices, g2) = rnd_sample R g1 (length lines) sample_size
           in case sampled_indices of
                Inl e \<Rightarrow> (Inl e, g2)
              | Inr idxs \<Rightarrow> (sampled_lines lines idxs, g2)))"

definition default_random_state :: int where
  "default_random_state = 42"

text \<open>
  \<^verbatim>\<open>load_datasets\<close>: four calls in sequence, each with the default
  \<open>random_state\<close>; the first exception ends the function.
\<close>

definition load_datasets ::
  "'g random_module \<Rightarrow> file_system \<Rightarrow> 'g \<Rightarrow> string \<Rightarrow> string \<Rightarrow> string \<Rightarrow> string
     \<Rightarrow> int \<Rightarrow> int
     \<Rightarrow> (py_error + string list \<times> string list \<times> string list \<times> string list) \<times> 'g" where
  "load_datasets R fs g train_data_path train_labels_path test_data_path test_labels_path
       train_sample_size test_sample_size =
     (case load_data_sample R fs g train_data_path train_sample_size default_random_state of
        (Inl e, ga) \<Rightarrow> (Inl e, ga)
      | (Inr X_train, ga) \<Rightarrow>
     (case load_data_sample R fs ga train_labels_path train_sample_size default_random_state of
        (Inl e, gb) \<Rightarrow> (Inl e, gb)
      | (Inr y_train, gb) \<Rightarrow>
     (case load_data_sample R fs gb test_data_path test_sample_size default_random_state of
        (Inl e, gc) \<Rightarrow> (Inl e, gc)
      | (Inr X_test, gc) \<Rightarrow>
     (case load_data_sample R fs gc test_labels_path test_sample_size default_random_state of
        (Inl e, gd) \<Rightarrow> (Inl e, gd)
      | (Inr y_test, gd) \<Rightarrow> (Inr (X_train, y_train, X_test, y_test), gd)))))"

text \<open>
  The indices that \<^verbatim>\<open>random.sample\<close> returns right after \<^verbatim>\<open>random.seed(s)\<close>, for a
  population \<open>range(N)\<close> and a count \<open>k\<close>.
\<close>

definition seeded_sample :: "'g random_module \<Rightarrow> int \<Rightarrow> nat \<Rightarrow> int \<Rightarrow> py_error + nat list" where
  "seeded_sample R s N k = fst (rnd_sample R (rnd_seed R s) N k)"

subsection \<open>Dictionaries\<close>

text \<open>
  A Python \<^verbatim>\<open>dict\<close> keeps its keys in insertion order and holds each key once:
  an association list. \<open>dict_set\<close> is \<^verbatim>\<open>d[k] = v\<close> (a key already present keeps its
  place), \<open>dict_of\<close> a dict comprehension over the given key/value pairs,
  \<open>dict_get\<close> is \<^verbatim>\<open>d[k]\<close>, which raises \<^verbatim>\<open>KeyError\<close> on a missing key.
\<close>

type_synonym ('k, 'v) dict = "('k \<times> 'v) list"

fun dict_set :: "'k \<Rightarrow> 'v \<Rightarrow> ('k, 'v) dict \<Rightarrow> ('k, 'v) dict" where
  "dict_set k v [] = [(k, v)]"
| "dict_set k v ((k', v') # d) =
     (if k' = k then (k', v) # d else (k', v') # dict_set k v d)"

definition dict_of :: "('k \<times> 'v) list \<Rightarrow> ('k, 'v) dict" where
  "dict_of kvs = fold (\<lambda>(k, v) d. dict_set k v d) kvs []"

definition dict_get :: "('k, 'v) dict \<Rightarrow> 'k \<Rightarrow> py_error + 'v" where
  "dict_get d k = (case map_of d k of None \<Rightarrow> Inl KeyError | Some v \<Rightarrow> Inr v)"

subsection \<open>The label indexer (BERT notebook)\<close>

text \<open>
  \<^verbatim>\<open>all_labels = sorted(set(y_train) | set(y_test))\<close> and
  \<^verbatim>\<open>lang2idx = {lang: idx for idx, lang in enumerate(all_labels)}\<close>.
  Python orders strings by code point, which is the lexicographic order on
  their bytes.
\<close>

definition all_labels :: "string list \<Rightarrow> string list \<Rightarrow> string list" where
  "all_labels y_train y_test = sort (remdups (y_train @ y_test))"

definition lang2idx :: "string list \<Rightarrow> string list \<Rightarrow> (string, nat) dict" where
  "lang2idx y_train y_test =
     dict_of (map (\<lambda>(idx, lang). (lang, idx)) (enumerate 0 (all_labels y_train y_test)))"

text \<open>
  \<^verbatim>\<open>encode_labels(labels)\<close> reads the global \<^verbatim>\<open>lang2idx\<close>, here its first
  argument: \<^verbatim>\<open>[lang2idx[lang] for lang in labels]\<close>.
\<close>

fun encode_labels :: "(string, nat) dict \<Rightarrow> string list \<Rightarrow> py_error + nat list" where
  "encode_labels l2i [] = Inr []"
| "encode_labels l2i (lang # rest) =
     (case dict_get l2i lang of
        Inl e \<Rightarrow> Inl e
      | Inr idx \<Rightarrow>
          (case encode_labels l2i rest of Inl e \<Rightarrow> Inl e | Inr out \<Rightarrow> Inr (idx # out)))"

text \<open>
  The cell before \<^verbatim>\<open>predict\<close>:
  \<^verbatim>\<open>unique_labels = sorted(set(y_train))\<close>,
  \<^verbatim>\<open>label_to_index = {label: idx for idx, label in enumerate(unique_labels)}\<close>,
  \<^verbatim>\<open>index_to_language = {idx: label for label, idx in label_to_index.items()}\<close>.
  \<^verbatim>\<open>predict\<close> decodes a class index with \<^verbatim>\<open>index_to_language[prediction_index]\<close>.
\<close>

definition unique_labels :: "string list \<Rightarrow> string list" where
  "unique_labels y_train = sort (remdups y_train)"

definition label_to_index :: "string list \<Rightarrow> (string, nat) dict" where
  "label_to_index y_train =
     dict_of (map (\<lambda>(idx, label). (label, idx)) (enumerate 0 (unique_labels y_train)))"

definition index_to_language :: "string list \<Rightarrow> (nat, string) dict" where
  "index_to_language y_train =
     dict_of (map (\<lambda>(label, idx). (idx, label)) (label_to_index y_train))"

text \<open>
  Encoding a label with the training-time map and decoding the index with the
  predictor's map.
\<close>

definition encode_then_decode :: "string list \<Rightarrow> string list \<Rightarrow> string \<Rightarrow> py_error + string" where
  "encode_then_decode y_train y_test lang =
     (case dict_get (lang2idx y_train y_test) lang of
        Inl e \<Rightarrow> Inl e
      | Inr idx \<Rightarrow> dict_get (index_to_language y_train) idx)"

subsection \<open>Library interfaces of the TF-IDF / Word2Vec notebook\<close>

text \<open>
  Embedding vectors and feature values are rationals: rounding of floating-point
  arithmetic is not modelled.
\<close>

type_synonym vec = "rat list"

text \<open>
  The arrays that \<^verbatim>\<open>np.mean(vs, axis=0, keepdims=True)\<close> produces from a list of
  vectors: for \<open>k > 0\<close> vectors of one length \<open>d\<close>, an array of shape \<open>(1, d)\<close> holding
  the elementwise mean; for the empty list, the array \<^verbatim>\<open>[nan]\<close> of shape \<open>(1,)\<close>
  (numpy warns and does not raise); for vectors of different lengths numpy
  raises \<^verbatim>\<open>ValueError\<close>.
\<close>

datatype ndarray = Row2D vec | Nan1D

definition np_mean :: "vec list \<Rightarrow> py_error + ndarray" where
  "np_mean vs =
     (case vs of
        [] \<Rightarrow> Inr Nan1D
      | v # rest \<Rightarrow>
          if list_all (\<lambda>u. length u = length v) rest
          then Inr (Row2D (map (\<lambda>j. sum_list (map (\<lambda>u. u ! j) vs) / of_nat (length vs))
                             [0..<length v]))
          else Inl ValueError)"

text \<open>
  \<^verbatim>\<open>text.lower()\<close> and NLTK's \<^verbatim>\<open>word_tokenize\<close>.
\<close>

record text_lib =
  str_lower :: "string \<Rightarrow> string"
  word_tokenize :: "string \<Rightarrow> string list"

text \<open>
  gensim: \<open>w2v_train\<close> stands for the three calls \<^verbatim>\<open>Word2Vec(sentences, ...)\<close>,
  \<^verbatim>\<open>build_vocab\<close> and \<^verbatim>\<open>train\<close>, \<open>index_to_key\<close> for
  \<^verbatim>\<open>model.wv.index_to_key\<close> (the vocabulary of the trained model) and \<open>wv\<close> for
  \<^verbatim>\<open>model.wv[word]\<close> on a word of that vocabulary.
\<close>

record 'w gensim =
  w2v_train :: "string list \<Rightarrow> py_error + 'w"
  index_to_key :: "'w \<Rightarrow> string list"
  wv :: "'w \<Rightarrow> string \<Rightarrow> vec"

text \<open>
  What a \<^verbatim>\<open>fit\<close> call receives as its first argument: the raw texts, a dictionary
  from words to vectors, or a matrix with one row per sample.
\<close>

datatype features = Texts "string list" | WordVectors "(string, vec) dict" | Rows "vec list"

text \<open>
  scikit-learn: \<open>grid_search_fit\<close> stands for building the TF-IDF pipeline, running
  \<^verbatim>\<open>GridSearchCV(...).fit\<close> and taking \<^verbatim>\<open>best_estimator_\<close>; \<open>pipeline_fit\<close> for
  \<^verbatim>\<open>Pipeline([('classifier', LogisticRegression(max_iter=10000))]).fit\<close>, returning
  the fitted pipeline; \<open>predict\<close> for \<^verbatim>\<open>model.predict\<close>; \<open>accuracy_score\<close> for
  \<^verbatim>\<open>sklearn.metrics.accuracy_score(y_true, y_pred)\<close>, where a prediction is a label
  or Python's \<^verbatim>\<open>None\<close>.
\<close>

record 'm sklearn =
  grid_search_fit :: "features \<Rightarrow> string list \<Rightarrow> py_error + 'm"
  pipeline_fit :: "features \<Rightarrow> string list \<Rightarrow> py_error + 'm"
  predict :: "'m \<Rightarrow> ndarray \<Rightarrow> py_error + string list"
  accuracy_score :: "string list \<Rightarrow> string option list \<Rightarrow> py_error + rat"

text \<open>
  The number of positions at which the prediction is the ground-truth label,
  and what scikit-learn documents for \<^verbatim>\<open>accuracy_score\<close> on two label sequences of
  the same positive length: the fraction of such positions.
\<close>

definition correct_count :: "string list \<Rightarrow> string option list \<Rightarrow> nat" where
  "correct_count y predictions = length (filter (\<lambda>(t, p). p = Some t) (zip y predictions))"

definition accuracy_contract :: "'m sklearn \<Rightarrow> bool" where
  "accuracy_contract S \<longleftrightarrow>
     (\<forall>y ps. length y = length ps \<and> y \<noteq> [] \<and> None \<notin> set ps \<longrightarrow>
        accuracy_score S y ps = Inr (of_nat (correct_count y ps) / of_nat (length y)))"

subsection \<open>word2vec\_transform, predict\_language, train\_and\_tune\_model, predict\_and\_evaluate\<close>

text \<open>
  \<^verbatim>\<open>word2vec_transform(sentences)\<close> returns
  \<^verbatim>\<open>{word: model.wv[word] for word in model.wv.index_to_key}\<close>.
\<close>

definition word2vec_transform :: "'w gensim \<Rightarrow> string list \<Rightarrow> py_error + (string, vec) dict" where
  "word2vec_transform G sentences =
     (case w2v_train G sentences of
        Inl e \<Rightarrow> Inl e
      | Inr model \<Rightarrow> Inr (dict_of (map (\<lambda>word. (word, wv G model word)) (index_to_key G model))))"

text \<open>
  The comprehension \<^verbatim>\<open>[word2vec[word] for word in tokenized_text if word in word2vec]\<close>
  of \<^verbatim>\<open>predict_language\<close>. The name \<^verbatim>\<open>word2vec\<close> is a global of the notebook:
  \<open>None\<close> when no binding exists, \<open>Some d\<close> when it is bound to the dictionary \<open>d\<close>.
  Python resolves the name when the condition is evaluated for a token, so an
  unbound name raises \<^verbatim>\<open>NameError\<close> at the first token and is never looked up
  when there is no token.
\<close>

fun known_vectors :: "(string, vec) dict option \<Rightarrow> string list \<Rightarrow> py_error + vec list" where
  "known_vectors word2vec [] = Inr []"
| "known_vectors None (word # rest) = Inl NameError"
| "known_vectors (Some d) (word # rest) =
     (case map_of d word of
        None \<Rightarrow> known_vectors (Some d) rest
      | Some v \<Rightarrow>
          (case known_vectors (Some d) rest of Inl e \<Rightarrow> Inl e | Inr vs \<Rightarrow> Inr (v # vs)))"

text \<open>
  \<^verbatim>\<open>predict_language(text, model, vectorizer_type)\<close>. The function has one
  \<^verbatim>\<open>if\<close> and no \<^verbatim>\<open>else\<close>: for any other \<open>vectorizer_type\<close> control reaches the end
  of the body and the call returns \<^verbatim>\<open>None\<close>. \<^verbatim>\<open>model.predict(...)[0]\<close> raises
  \<^verbatim>\<open>IndexError\<close> on an empty result.
\<close>

definition predict_language ::
  "'m sklearn \<Rightarrow> text_lib \<Rightarrow> (string, vec) dict option \<Rightarrow> string \<Rightarrow> 'm \<Rightarrow> string
     \<Rightarrow> py_error + string option" where
  "predict_language S T word2vec text model vectorizer_type =
     (if vectorizer_type = ''word2vec''
      then (let tokenized_text = word_tokenize T (str_lower T text) in
            case known_vectors word2vec tokenized_text of
              Inl e \<Rightarrow> Inl e
            | Inr vs \<Rightarrow>
                (case np_mean vs of
                   Inl e \<Rightarrow> Inl e
                 | Inr transformed_text \<Rightarrow>
                     (case predict S model transformed_text of
                        Inl e \<Rightarrow> Inl e
                      | Inr [] \<Rightarrow> Inl IndexError
                      | Inr (p # ps) \<Rightarrow> Inr (Some p))))
      else Inr None)"

text \<open>
  \<^verbatim>\<open>train_and_tune_model(X_train, y_train, vectorizer_type)\<close>. In the
  \<^verbatim>\<open>'word2vec'\<close> branch the value of \<^verbatim>\<open>word2vec_transform(X_train)\<close> is bound to the
  local \<^verbatim>\<open>X_train_transformed\<close> and handed to \<^verbatim>\<open>pipeline.fit\<close>; the function
  returns the pipeline only. Any other \<open>vectorizer_type\<close> returns \<^verbatim>\<open>None\<close>.
\<close>

definition train_and_tune_model ::
  "'m sklearn \<Rightarrow> 'w gensim \<Rightarrow> string list \<Rightarrow> string list \<Rightarrow> string
     \<Rightarrow> py_error + 'm option" where
  "train_and_tune_model S G X_train y_train vectorizer_type =
     (if vectorizer_type = ''tfidf''
      then (case grid_search_fit S (Texts X_train) y_train of
              Inl e \<Rightarrow> Inl e
            | Inr best_estimator \<Rightarrow> Inr (Some best_estimator))
      else if vectorizer_type = ''word2vec''
      then (case word2vec_transform G X_train of
              Inl e \<Rightarrow> Inl e
            | Inr X_train_transformed \<Rightarrow>
                (case pipeline_fit S (WordVectors X_train_transformed) y_train of
                   Inl e \<Rightarrow> Inl e
                 | Inr pipeline \<Rightarrow> Inr (Some pipeline)))
      else Inr None)"

text \<open>
  The loop of \<^verbatim>\<open>predict_and_evaluate\<close>: one call of \<^verbatim>\<open>predict_language\<close> per text,
  in order, the first exception ending the run. The progress lines it prints
  are left out.
\<close>

fun collect_predictions ::
  "(string \<Rightarrow> py_error + string option) \<Rightarrow> string list \<Rightarrow> py_error + string option list" where
  "collect_predictions P [] = Inr []"
| "collect_predictions P (text # rest) =
     (case P text of
        Inl e \<Rightarrow> Inl e
      | Inr p \<Rightarrow>
          (case collect_predictions P rest of Inl e \<Rightarrow> Inl e | Inr ps \<Rightarrow> Inr (p # ps)))"

definition predict_and_evaluate ::
  "'m sklearn \<Rightarrow> text_lib \<Rightarrow> (string, vec) dict option \<Rightarrow> string list \<Rightarrow> string list \<Rightarrow> 'm
     \<Rightarrow> string \<Rightarrow> py_error + rat" where
  "predict_and_evaluate S T word2vec X y model vectorizer_type =
     (case collect_predictions (\<lambda>text. predict_language S T word2vec text model vectorizer_type) X of
        Inl e \<Rightarrow> Inl e
      | Inr predictions \<Rightarrow> accuracy_score S y predictions)"

text \<open>
  No cell of either notebook assigns the name \<^verbatim>\<open>word2vec\<close>: the only assignments
  near it are to \<^verbatim>\<open>model_word2vec\<close> and \<^verbatim>\<open>y_pred_word2vec\<close>, and the dictionary
  built by \<^verbatim>\<open>word2vec_transform\<close> is held by a local of
  \<^verbatim>\<open>train_and_tune_model\<close>. In a run of the notebook the global is unbound.
\<close>

definition notebook_word2vec :: "(string, vec) dict option" where
  "notebook_word2vec = None"

subsection \<open>Concrete libraries for evaluating the functions\<close>

text \<open>
  Small executable instances of the library interfaces, used to run the
  functions above on concrete inputs. The generator draws a rotation of the
  population; the files are a three-line training pair and a two-line test pair.
\<close>

definition demo_sample :: "nat \<Rightarrow> nat \<Rightarrow> int \<Rightarrow> (py_error + nat list) \<times> nat" where
  "demo_sample g N k =
     (if 0 \<le> k \<and> k \<le> int N
      then (Inr (take (nat k) (rotate (g mod N) [0..<N])), Suc g)
      else (Inl ValueError, g))"

definition demo_random :: "nat random_module" where
  "demo_random = \<lparr>rnd_seed = (\<lambda>a. nat \<bar>a\<bar>), rnd_sample = demo_sample\<rparr>"

definition demo_x_train :: "string list" where
  "demo_x_train = [''hello world\<newline>'', ''bonjour le monde\<newline>'', ''hallo welt\<newline>'']"

definition demo_y_train :: "string list" where
  "demo_y_train = [''eng\<newline>'', ''fra\<newline>'', ''deu\<newline>'']"

definition demo_x_test :: "string list" where
  "demo_x_test = [''hello there\<newline>'', ''guten tag\<newline>'']"

definition demo_y_test :: "string list" where
  "demo_y_test = [''eng\<newline>'', ''deu\<newline>'']"

definition demo_files :: file_system where
  "demo_files =
     [''x_train.txt'' \<mapsto> demo_x_train, ''y_train.txt'' \<mapsto> demo_y_train,
      ''x_test.txt'' \<mapsto> demo_x_test, ''y_test.txt'' \<mapsto> demo_y_test]"

text \<open>
  A tokenizer that splits at spaces (as \<^verbatim>\<open>word_tokenize\<close> does on text without
  punctuation; the empty text has no token) and a lower-casing of ASCII letters.
\<close>

fun demo_words :: "string \<Rightarrow> string \<Rightarrow> string list" where
  "demo_words cur [] = (if cur = [] then [] else [cur])"
| "demo_words cur (c # cs) =
     (if c = CHR '' ''
      then (if cur = [] then demo_words [] cs else cur # demo_words [] cs)
      else demo_words (cur @ [c]) cs)"

definition demo_lower :: "string \<Rightarrow> string" where
  "demo_lower s =
     map (\<lambda>c. let n = (of_char c :: nat) in if 65 \<le> n \<and> n \<le> 90 then char_of (n + 32) else c) s"

definition demo_text :: text_lib where
  "demo_text = \<lparr>str_lower = demo_lower, word_tokenize = demo_words []\<rparr>"

text \<open>
  A gensim instance whose trained model is the corpus itself. The notebook
  passes a list of strings as \<open>sentences\<close>; gensim iterates each sentence for its
  tokens, so the tokens of a string are its characters, and with
  \<^verbatim>\<open>min_count=1\<close> every one of them enters the vocabulary.
\<close>

definition demo_gensim :: "string list gensim" where
  "demo_gensim =
     \<lparr>w2v_train = Inr,
      index_to_key = (\<lambda>corpus. remdups (concat (map (map (\<lambda>c. [c])) corpus))),
      wv = (\<lambda>corpus word. [of_nat (length word)])\<rparr>"

text \<open>
  A scikit-learn instance whose fitted model records the arguments of the
  \<^verbatim>\<open>fit\<close> call. Its \<open>predict\<close> rejects a one-dimensional array, as the input
  validation of scikit-learn's linear classifiers does, and answers on a row by
  the sign of the first feature; its \<open>accuracy_score\<close> is the fraction of matches.
\<close>

definition demo_predict :: "features \<times> string list \<Rightarrow> ndarray \<Rightarrow> py_error + string list" where
  "demo_predict model x =
     (case x of
        Nan1D \<Rightarrow> Inl ValueError
      | Row2D v \<Rightarrow> Inr [if list_ex (\<lambda>a. 0 < a) (take 1 v) then ''eng'' else ''fra''])"

definition demo_accuracy :: "string list \<Rightarrow> string option list \<Rightarrow> py_error + rat" where
  "demo_accuracy y ps =
     (if length y = length ps \<and> y \<noteq> [] \<and> list_all (\<lambda>p. p \<noteq> None) ps
      then Inr (of_nat (correct_count y ps) / of_nat (length y))
      else Inl ValueError)"

definition demo_sklearn :: "(features \<times> string list) sklearn" where
  "demo_sklearn =
     \<lparr>grid_search_fit = (\<lambda>X y. Inr (X, y)),
      pipeline_fit = (\<lambda>X y. Inr (X, y)),
      predict = demo_predict,
      accuracy_score = demo_accuracy\<rparr>"

definition demo_word2vec :: "(string, vec) dict" where
  "demo_word2vec = [(''hello'', [1, 0]), (''world'', [3, 2]), (''bonjour'', [- 1, 4])]"

text \<open>
  The label that \<open>demo_predict\<close> gives a text over \<open>demo_word2vec\<close>: the one word with
  a negative first feature is \<open>bonjour\<close>.
\<close>

definition demo_label_of :: "string \<Rightarrow> string" where
  "demo_label_of text = (if text = ''bonjour'' then ''fra'' else ''eng'')"

section \<open>The deterministic sampler\<close>

lemma demo_random_contract: "sample_contract demo_random"
  unfolding sample_contract_def demo_random_def demo_sample_def
  by (auto dest: in_set_takeD)

lemma sampled_lines_in_range:
  "set idxs \<subseteq> {..<length lines} \<Longrightarrow>
     sampled_lines lines idxs = Inr (map (\<lambda>i. strip (lines ! i)) idxs)"
  by (induction idxs) auto

lemma load_data_sample_unfold:
  "fs p = Some lines \<Longrightarrow>
     fst (load_data_sample R fs g p n s) =
       (case seeded_sample R s (length lines) n of
          Inl e \<Rightarrow> Inl e | Inr idxs \<Rightarrow> sampled_lines lines idxs)"
  by (simp add: load_data_sample_def seeded_sample_def split: prod.splits sum.splits)

lemma seeded_sample_ok:
  assumes "sample_contract R" "0 \<le> k" "k \<le> int N"
  obtains idxs where "seeded_sample R s N k = Inr idxs" "length idxs = nat k"
    "distinct idxs" "set idxs \<subseteq> {..<N}"
  using assms unfolding sample_contract_def seeded_sample_def
  by (metis (no_types, lifting))

lemma seeded_sample_error:
  assumes "sample_contract R" "int N < k"
  shows "seeded_sample R s N k = Inl ValueError"
  using assms unfolding sample_contract_def seeded_sample_def
  by (metis (no_types, lifting) not_le)

lemma load_data_sample_returns:
  assumes "fs p = Some lines" "length lines = N" "seeded_sample R s N n = Inr idxs"
    "set idxs \<subseteq> {..<N}"
  shows "\<exists>g'. load_data_sample R fs g p n s = (Inr (map (\<lambda>i. strip (lines ! i)) idxs), g')"
proof -
  have "fst (load_data_sample R fs g p n s) = Inr (map (\<lambda>i. strip (lines ! i)) idxs)"
    using assms by (simp add: load_data_sample_unfold sampled_lines_in_range)
  then show ?thesis by (cases "load_data_sample R fs g p n s") simp
qed

lemma demo_files_x_train: "demo_files ''x_train.txt'' = Some demo_x_train"
  by (simp add: demo_files_def)

text \<open>
  C4. Same corpus, same seed, same count: two calls of \<open>load_data_sample\<close> return
  the same sequence of stripped lines, whatever the state of the generator
  before each call (the second call may start from the state the first one
  left). For a count between 0 and the number of lines both calls return, and
  the sequence has that many entries. The generator's state does not matter
  because each call seeds it anew.
\<close>

theorem load_data_sample_deterministic:
  assumes "sample_contract R" "fs p = Some lines" "0 \<le> n" "n \<le> int (length lines)"
  shows "\<exists>out. fst (load_data_sample R fs g1 p n s) = Inr out
            \<and> fst (load_data_sample R fs g2 p n s) = Inr out \<and> length out = nat n"
proof -
  obtain idxs where i: "seeded_sample R s (length lines) n = Inr idxs" "length idxs = nat n"
    "set idxs \<subseteq> {..<length lines}"
    using seeded_sample_ok [OF assms(1,3,4)] by metis
  show ?thesis
    using i assms(2) by (simp add: load_data_sample_unfold sampled_lines_in_range)
qed

theorem load_data_sample_deterministic_witness:
  "\<exists>out. fst (load_data_sample demo_random demo_files 0 ''x_train.txt'' 2 42) = Inr out
       \<and> fst (load_data_sample demo_random demo_files 7 ''x_train.txt'' 2 42) = Inr out
       \<and> length out = nat 2"
proof (rule load_data_sample_deterministic [where fs = demo_files and lines = demo_x_train])
  show "sample_contract demo_random" by (rule demo_random_contract)
  show "demo_files ''x_train.txt'' = Some demo_x_train" by (rule demo_files_x_train)
  show "(2::int) \<le> int (length demo_x_train)" by (simp add: demo_x_train_def)
qed simp

text \<open>
  C5. On an existing file, \<open>load_data_sample\<close> raises (a \<open>ValueError\<close>, from
  \<open>random.sample\<close>) when the requested count exceeds the number of lines; for a
  count between 0 and the number of lines it returns the stripped lines at
  exactly that many pairwise different line positions of the file.
\<close>

theorem load_data_sample_count:
  assumes "sample_contract R" "fs p = Some lines"
  shows "(int (length lines) < n \<longrightarrow> fst (load_data_sample R fs g p n s) = Inl ValueError) \<and>
         (0 \<le> n \<and> n \<le> int (length lines) \<longrightarrow>
            (\<exists>idxs. fst (load_data_sample R fs g p n s) = Inr (map (\<lambda>i. strip (lines ! i)) idxs)
               \<and> length idxs = nat n \<and> distinct idxs \<and> set idxs \<subseteq> {..<length lines}))"
proof (intro conjI impI)
  assume "int (length lines) < n"
  from seeded_sample_error [OF assms(1) this] assms(2)
  show "fst (load_data_sample R fs g p n s) = Inl ValueError"
    by (simp add: load_data_sample_unfold)
next
  assume n: "0 \<le> n \<and> n \<le> int (length lines)"
  then obtain idxs where i: "seeded_sample R s (length lines) n = Inr idxs"
    "length idxs = nat n" "distinct idxs" "set idxs \<subseteq> {..<length lines}"
    using seeded_sample_ok [OF assms(1)] by metis
  then show "\<exists>idxs. fst (load_data_sample R fs g p n s) = Inr (map (\<lambda>i. strip (lines ! i)) idxs)
               \<and> length idxs = nat n \<and> distinct idxs \<and> set idxs \<subseteq> {..<length lines}"
    using assms(2) by (auto simp: load_data_sample_unfold sampled_lines_in_range)
qed

theorem load_data_sample_count_witness:
  "fst (load_data_sample demo_random demo_files 0 ''x_train.txt'' 4 42) = Inl ValueError \<and>
   (\<exists>idxs. fst (load_data_sample demo_random demo_files 0 ''x_train.txt'' 2 42) =
              Inr (map (\<lambda>i. strip (demo_x_train ! i)) idxs)
      \<and> length idxs = nat 2 \<and> distinct idxs \<and> set idxs \<subseteq> {..<length demo_x_train})"
proof -
  have len: "length demo_x_train = 3" by (simp add: demo_x_train_def)
  have big: "int (length demo_x_train) < 4" and small: "(0::int) \<le> 2 \<and> 2 \<le> int (length demo_x_train)"
    by (simp_all add: len)
  from load_data_sample_count [where fs = demo_files and n = 4 and g = 0 and s = 42,
      OF demo_random_contract demo_files_x_train] big
  have "fst (load_data_sample demo_random demo_files 0 ''x_train.txt'' 4 42) = Inl ValueError"
    by blast
  moreover from load_data_sample_count [where fs = demo_files and n = 2 and g = 0 and s = 42,
      OF demo_random_contract demo_files_x_train] small
  have "\<exists>idxs. fst (load_data_sample demo_random demo_files 0 ''x_train.txt'' 2 42) =
              Inr (map (\<lambda>i. strip (demo_x_train ! i)) idxs)
      \<and> length idxs = nat 2 \<and> distinct idxs \<and> set idxs \<subseteq> {..<length demo_x_train}"
    by blast
  ultimately show ?thesis by blast
qed

text \<open>
  C9. When the training text and label files have the same number of lines,
  and so do the test text and label files, \<open>load_datasets\<close> returns index-aligned
  sequences: one list of line numbers gives both the sampled training texts and
  the sampled training labels, position by position, and another one does so
  for the test pair. Both calls of a pair seed the generator with 42 and ask
  for the same count over the same range.
\<close>

theorem load_datasets_aligned:
  assumes R: "sample_contract R"
    and train: "fs train_data_path = Some xs_train" "fs train_labels_path = Some ys_train"
      "length xs_train = length ys_train"
    and test: "fs test_data_path = Some xs_test" "fs test_labels_path = Some ys_test"
      "length xs_test = length ys_test"
    and n: "0 \<le> n" "n \<le> int (length xs_train)"
    and m: "0 \<le> m" "m \<le> int (length xs_test)"
  shows "\<exists>itr ite.
           fst (load_datasets R fs g train_data_path train_labels_path test_data_path
                  test_labels_path n m) =
             Inr (map (\<lambda>i. strip (xs_train ! i)) itr, map (\<lambda>i. strip (ys_train ! i)) itr,
                  map (\<lambda>i. strip (xs_test ! i)) ite, map (\<lambda>i. strip (ys_test ! i)) ite)
           \<and> length itr = nat n \<and> distinct itr \<and> set itr \<subseteq> {..<length xs_train}
           \<and> length ite = nat m \<and> distinct ite \<and> set ite \<subseteq> {..<length xs_test}"
proof -
  let ?s = default_random_state
  obtain itr where itr: "seeded_sample R ?s (length xs_train) n = Inr itr"
    "length itr = nat n" "distinct itr" "set itr \<subseteq> {..<length xs_train}"
    using seeded_sample_ok [OF R n] by metis
  obtain ite where ite: "seeded_sample R ?s (length xs_test) m = Inr ite"
    "length ite = nat m" "distinct ite" "set ite \<subseteq> {..<length xs_test}"
    using seeded_sample_ok [OF R m] by metis
  obtain ga where a: "load_data_sample R fs g train_data_path n ?s =
      (Inr (map (\<lambda>i. strip (xs_train ! i)) itr), ga)"
    using load_data_sample_returns [where fs = fs, OF train(1) refl itr(1) itr(4)] by blast
  obtain gb where b: "load_data_sample R fs ga train_labels_path n ?s =
      (Inr (map (\<lambda>i. strip (ys_train ! i)) itr), gb)"
    using load_data_sample_returns [where fs = fs, OF train(2) train(3) [symmetric] itr(1) itr(4)]
    by blast
  obtain gc where c: "load_data_sample R fs gb test_data_path m ?s =
      (Inr (map (\<lambda>i. strip (xs_test ! i)) ite), gc)"
    using load_data_sample_returns [where fs = fs, OF test(1) refl ite(1) ite(4)] by blast
  obtain gd where d: "load_data_sample R fs gc test_labels_path m ?s =
      (Inr (map (\<lambda>i. strip (ys_test ! i)) ite), gd)"
    using load_data_sample_returns [where fs = fs, OF test(2) test(3) [symmetric] ite(1) ite(4)]
    by blast
  have "fst (load_datasets R fs g train_data_path train_labels_path test_data_path
                  test_labels_path n m) =
             Inr (map (\<lambda>i. strip (xs_train ! i)) itr, map (\<lambda>i. strip (ys_train ! i)) itr,
                  map (\<lambda>i. strip (xs_test ! i)) ite, map (\<lambda>i. strip (ys_test ! i)) ite)"
    by (simp add: load_datasets_def a b c d)
  with itr ite show ?thesis by blast
qed

theorem load_datasets_aligned_witness:
  "\<exists>itr ite.
     fst (load_datasets demo_random demo_files 0 ''x_train.txt'' ''y_train.txt'' ''x_test.txt''
            ''y_test.txt'' 2 1) =
       Inr (map (\<lambda>i. strip (demo_x_train ! i)) itr, map (\<lambda>i. strip (demo_y_train ! i)) itr,
            map (\<lambda>i. strip (demo_x_test ! i)) ite, map (\<lambda>i. strip (demo_y_test ! i)) ite)
     \<and> length itr = nat 2 \<and> distinct itr \<and> set itr \<subseteq> {..<length demo_x_train}
     \<and> length ite = nat 1 \<and> distinct ite \<and> set ite \<subseteq> {..<length demo_x_test}"
proof (rule load_datasets_aligned [where fs = demo_files])
  show "sample_contract demo_random" by (rule demo_random_contract)
  show "demo_files ''x_train.txt'' = Some demo_x_train" by (rule demo_files_x_train)
  show "demo_files ''y_train.txt'' = Some demo_y_train" by (simp add: demo_files_def)
  show "demo_files ''x_test.txt'' = Some demo_x_test" by (simp add: demo_files_def)
  show "demo_files ''y_test.txt'' = Some demo_y_test" by (simp add: demo_files_def)
  show "length demo_x_train = length demo_y_train" by (simp add: demo_x_train_def demo_y_train_def)
  show "length demo_x_test = length demo_y_test" by (simp add: demo_x_test_def demo_y_test_def)
  show "(2::int) \<le> int (length demo_x_train)" by (simp add: demo_x_train_def)
  show "(1::int) \<le> int (length demo_x_test)" by (simp add: demo_x_test_def)
qed simp_all

section \<open>The label indexer\<close>

lemma keys_dict_set: "fst ` set (dict_set k v d) = insert k (fst ` set d)"
proof (induction d)
  case Nil
  show ?case by simp
next
  case (Cons p d)
  obtain k' v' where p: "p = (k', v')" by (cases p)
  show ?case using Cons by (cases "k' = k") (simp_all add: p insert_commute)
qed

lemma keys_fold_dict_set:
  "fst ` set (fold (\<lambda>(k, v) d. dict_set k v d) kvs d) = fst ` set kvs \<union> fst ` set d"
  by (induction kvs arbitrary: d) (auto simp: keys_dict_set split: prod.splits)

lemma keys_dict_of: "fst ` set (dict_of kvs) = fst ` set kvs"
  by (simp add: dict_of_def keys_fold_dict_set)

lemma keys_lang2idx: "fst ` set (lang2idx y_train y_test) = set y_train \<union> set y_test"
proof -
  have "fst ` set (map (\<lambda>(idx, lang). (lang, idx)) (enumerate 0 xs)) = set xs"
    for xs :: "string list"
    by (force simp: enumerate_eq_zip in_set_zip in_set_conv_nth)
  then show ?thesis by (simp add: lang2idx_def keys_dict_of all_labels_def)
qed

lemma dict_get_missing: "k \<notin> fst ` set d \<Longrightarrow> dict_get d k = Inl KeyError"
  by (simp add: dict_get_def map_of_eq_None_iff [THEN iffD2])

lemma dict_get_error: "dict_get d k = Inl e \<Longrightarrow> e = KeyError"
  by (auto simp: dict_get_def split: option.splits)

lemma encode_labels_missing:
  "lang \<in> set labels \<Longrightarrow> dict_get l2i lang = Inl KeyError \<Longrightarrow>
     encode_labels l2i labels = Inl KeyError"
proof (induction labels)
  case Nil
  then show ?case by simp
next
  case (Cons l rest)
  show ?case
  proof (cases "dict_get l2i l")
    case (Inl e)
    then show ?thesis using dict_get_error [OF Inl] by simp
  next
    case (Inr idx)
    with Cons have "encode_labels l2i rest = Inl KeyError" by auto
    with Inr show ?thesis by simp
  qed
qed

text \<open>
  A dict comprehension over pairwise different keys is the list of its pairs,
  in order.
\<close>

lemma dict_set_fresh: "k \<notin> fst ` set d \<Longrightarrow> dict_set k v d = d @ [(k, v)]"
  by (induction d) auto

lemma fold_dict_set_distinct:
  "distinct (map fst (d @ kvs)) \<Longrightarrow> fold (\<lambda>(k, v) d. dict_set k v d) kvs d = d @ kvs"
proof (induction kvs arbitrary: d)
  case Nil
  show ?case by simp
next
  case (Cons p kvs)
  obtain k v where p: "p = (k, v)" by (cases p)
  from Cons.prems have fresh: "k \<notin> fst ` set d"
    and rest: "distinct (map fst ((d @ [(k, v)]) @ kvs))"
    by (auto simp: p)
  show ?case using Cons.IH [OF rest] by (simp add: p dict_set_fresh [OF fresh])
qed

lemma dict_of_distinct: "distinct (map fst kvs) \<Longrightarrow> dict_of kvs = kvs"
  using fold_dict_set_distinct [of "[]" kvs] by (simp add: dict_of_def)

lemma swapped_enumerate:
  "map (\<lambda>(idx, x). (x, idx)) (enumerate n xs) = zip xs [n..<n + length xs]"
  unfolding enumerate_eq_zip by (rule zip_commute [symmetric])

lemma label_index_of_distinct:
  assumes "distinct U"
  shows "dict_of (map (\<lambda>(idx, label). (label, idx)) (enumerate 0 U)) = zip U [0..<length U]"
proof -
  have "map fst (zip U [0..<length U]) = U" by simp
  with assms have "distinct (map fst (zip U [0..<length U]))" by simp
  then show ?thesis using swapped_enumerate [of 0 U] by (simp add: dict_of_distinct)
qed

lemma index_label_of_distinct:
  "dict_of (map (\<lambda>(label, idx). (idx, label)) (zip U [0..<length U])) = zip [0..<length U] U"
proof -
  have eq: "map (\<lambda>(label, idx). (idx, label)) (zip U [0..<length U]) = zip [0..<length U] U"
    by (rule zip_commute [symmetric])
  have "distinct (map fst (zip [0..<length U] U))" by simp
  then show ?thesis by (simp add: eq dict_of_distinct)
qed

lemma same_vocabulary:
  assumes "set y_test \<subseteq> set y_train"
  shows "all_labels y_train y_test = unique_labels y_train"
proof -
  have "set (remdups (y_train @ y_test)) = set (remdups y_train)" using assms by auto
  then show ?thesis
    unfolding all_labels_def unique_labels_def
    by (intro sorted_distinct_set_unique) simp_all
qed

text \<open>
  When every test label also occurs among the training labels, the two cells
  build the same vocabulary, and decoding an encoded training label gives the
  label back.
\<close>

lemma encode_then_decode_same_vocabulary:
  assumes "set y_test \<subseteq> set y_train" "lang \<in> set y_train"
  shows "encode_then_decode y_train y_test lang = Inr lang"
proof -
  let ?U = "unique_labels y_train"
  have d: "distinct ?U" and s: "set ?U = set y_train" by (simp_all add: unique_labels_def)
  from assms(2) have "lang \<in> set ?U" by (simp add: s)
  then obtain i where i: "i < length ?U" "?U ! i = lang"
    unfolding in_set_conv_nth by blast
  have l2i: "lang2idx y_train y_test = zip ?U [0..<length ?U]"
    by (simp add: lang2idx_def same_vocabulary [OF assms(1)] label_index_of_distinct [OF d])
  have i2l: "index_to_language y_train = zip [0..<length ?U] ?U"
    by (simp add: index_to_language_def label_to_index_def label_index_of_distinct [OF d]
        index_label_of_distinct)
  have "map_of (zip ?U [0..<length ?U]) (?U ! i) = Some ([0..<length ?U] ! i)"
    using d i(1) by (intro map_of_zip_nth) simp_all
  then have enc: "dict_get (lang2idx y_train y_test) lang = Inr i"
    using i by (simp add: dict_get_def l2i)
  have "map_of (zip [0..<length ?U] ?U) ([0..<length ?U] ! i) = Some (?U ! i)"
    using i(1) by (intro map_of_zip_nth) simp_all
  then have dec: "dict_get (index_to_language y_train) i = Inr lang"
    using i by (simp add: dict_get_def i2l)
  show ?thesis by (simp add: encode_then_decode_def enc dec)
qed

text \<open>
  C1. The claim: for every label of the vocabulary, decoding with
  \<open>index_to_language\<close> the index that \<open>lang2idx\<close> gives it returns the label. The
  two maps are built in two cells from two vocabularies: \<open>lang2idx\<close> from the
  training and test labels together, \<open>index_to_language\<close> from the training
  labels alone. With training labels \<open>eng\<close>, \<open>fra\<close> and a test label \<open>deu\<close>, the label
  \<open>eng\<close> is encoded as 1 and 1 is decoded as \<open>fra\<close>.
\<close>

theorem encode_then_decode_mismatch:
  "encode_then_decode [''eng'', ''fra''] [''deu''] ''eng'' = Inr ''fra''"
  by code_simp

text \<open>
  C7, as amended. A label that occurs neither among the training labels nor
  among the test labels is not a key of \<open>lang2idx\<close>: encoding a list that
  contains it raises \<open>KeyError\<close>.
\<close>

theorem encode_labels_unknown_label:
  assumes "lang \<in> set labels" "lang \<notin> set y_train \<union> set y_test"
  shows "encode_labels (lang2idx y_train y_test) labels = Inl KeyError"
  using assms by (intro encode_labels_missing dict_get_missing) (simp_all add: keys_lang2idx)

theorem encode_labels_unknown_label_witness:
  "encode_labels (lang2idx [''eng'', ''fra''] [''deu'']) [''eng'', ''spa''] = Inl KeyError"
  using encode_labels_unknown_label [of "''spa''" "[''eng'', ''spa'']" "[''eng'', ''fra'']" "[''deu'']"]
  by simp

text \<open>
  C7, as stated, fails: a label absent from the training labels is encoded
  without error when it occurs among the test labels, because \<open>lang2idx\<close> covers
  both splits. Here \<open>deu\<close> is a test label only, and its index is 0.
\<close>

theorem encode_labels_test_only_label:
  "''deu'' \<notin> set [''eng'', ''fra''] \<and>
   encode_labels (lang2idx [''eng'', ''fra''] [''deu'']) [''deu''] = Inr [0]"
  by code_simp

section \<open>Prediction, training and evaluation\<close>

lemma known_vectors_unbound:
  "known_vectors None ws = (if ws = [] then Inr [] else Inl NameError)"
  by (cases ws) simp_all

lemma known_vectors_all_absent:
  "\<forall>w \<in> set ws. map_of d w = None \<Longrightarrow> known_vectors (Some d) ws = Inr []"
  by (induction ws) simp_all

lemma collect_predictions_labels:
  "\<forall>text \<in> set X. P text = Inr (Some (label_of text)) \<Longrightarrow>
     collect_predictions P X = Inr (map (\<lambda>text. Some (label_of text)) X)"
  by (induction X) simp_all

lemma demo_accuracy_contract: "accuracy_contract demo_sklearn"
  by (simp add: accuracy_contract_def demo_sklearn_def demo_accuracy_def list_all_iff)

text \<open>
  With \<^verbatim>\<open>'tfidf'\<close> the evaluator collects one \<^verbatim>\<open>None\<close> per text, and with
  \<^verbatim>\<open>'word2vec'\<close> the training step hands \<^verbatim>\<open>fit\<close> the dictionary of word vectors,
  whatever the libraries are.
\<close>

lemma collect_predictions_tfidf:
  "collect_predictions (\<lambda>text. predict_language S T word2vec text model ''tfidf'') X =
     Inr (replicate (length X) None)"
  by (induction X) (simp_all add: predict_language_def)

lemma train_and_tune_model_word2vec:
  "train_and_tune_model S G X_train y_train ''word2vec'' =
     (case word2vec_transform G X_train of
        Inl e \<Rightarrow> Inl e
      | Inr d \<Rightarrow>
          (case pipeline_fit S (WordVectors d) y_train of
             Inl e \<Rightarrow> Inl e | Inr m \<Rightarrow> Inr (Some m)))"
  by (simp add: train_and_tune_model_def)

text \<open>
  C2. The claim: \<open>predict_language\<close> with \<^verbatim>\<open>'tfidf'\<close> returns the label that the
  fitted TF-IDF pipeline predicts for the text. The function has no branch for
  \<^verbatim>\<open>'tfidf'\<close>: for every text and every model it returns \<^verbatim>\<open>None\<close> and never calls
  the model.
\<close>

theorem predict_language_tfidf_returns_none:
  "predict_language S T word2vec text model ''tfidf'' = Inr None"
  by (simp add: predict_language_def)

text \<open>
  C3. The claim: the Word2Vec training step fits the classifier on one averaged
  vector per training sample. The step fits it on the dictionary that
  \<open>word2vec_transform\<close> returns, one entry per vocabulary word: for the single
  training text \<open>abc\<close> the first argument of \<^verbatim>\<open>fit\<close> has three entries, for the
  words \<open>a\<close>, \<open>b\<close> and \<open>c\<close>, and the second has one label.
\<close>

theorem word2vec_training_fits_on_word_dictionary:
  "train_and_tune_model demo_sklearn demo_gensim [''abc''] [''eng''] ''word2vec'' =
     Inr (Some (WordVectors [(''a'', [1]), (''b'', [1]), (''c'', [1])], [''eng'']))"
  by code_simp

text \<open>
  C6. When every call of \<open>predict_language\<close> returns a label and there are as many
  ground-truth labels as texts (at least one), \<open>predict_and_evaluate\<close> returns the
  number of positions at which the predicted label is the ground-truth label,
  divided by the number of texts; \<^verbatim>\<open>accuracy_score\<close> is scikit-learn's, taken with
  its documented contract. Five texts with three correct predictions give
  \<open>3 / 5\<close>.
\<close>

theorem predict_and_evaluate_accuracy:
  assumes "accuracy_contract S" "length y = length X" "X \<noteq> []"
    and "\<forall>text \<in> set X.
           predict_language S T word2vec text model vectorizer_type = Inr (Some (label_of text))"
  shows "predict_and_evaluate S T word2vec X y model vectorizer_type =
           Inr (of_nat (correct_count y (map (\<lambda>text. Some (label_of text)) X))
                  / of_nat (length X))"
proof -
  let ?ps = "map (\<lambda>text. Some (label_of text)) X"
  have "collect_predictions
          (\<lambda>text. predict_language S T word2vec text model vectorizer_type) X = Inr ?ps"
    using assms(4) by (rule collect_predictions_labels)
  moreover have "length y = length ?ps \<and> y \<noteq> [] \<and> None \<notin> set ?ps"
    using assms(2,3) by auto
  then have "accuracy_score S y ?ps = Inr (of_nat (correct_count y ?ps) / of_nat (length y))"
    using assms(1) unfolding accuracy_contract_def by blast
  ultimately show ?thesis by (simp add: predict_and_evaluate_def assms(2))
qed

theorem predict_and_evaluate_accuracy_witness:
  "predict_and_evaluate demo_sklearn demo_text (Some demo_word2vec)
     [''hello'', ''world'', ''bonjour'', ''hello world'', ''bonjour'']
     [''eng'', ''eng'', ''fra'', ''fra'', ''eng''] (Texts [], []) ''word2vec'' = Inr (3 / 5)"
proof -
  let ?X = "[''hello'', ''world'', ''bonjour'', ''hello world'', ''bonjour'']"
  let ?y = "[''eng'', ''eng'', ''fra'', ''fra'', ''eng'']"
  have p: "\<forall>text \<in> set ?X. predict_language demo_sklearn demo_text (Some demo_word2vec) text
             (Texts [], []) ''word2vec'' = Inr (Some (demo_label_of text))"
    by code_simp
  have c: "correct_count ?y (map (\<lambda>text. Some (demo_label_of text)) ?X) = 3"
    by code_simp
  have "predict_and_evaluate demo_sklearn demo_text (Some demo_word2vec) ?X ?y (Texts [], [])
          ''word2vec'' =
        Inr (of_nat (correct_count ?y (map (\<lambda>text. Some (demo_label_of text)) ?X))
               / of_nat (length ?X))"
    by (rule predict_and_evaluate_accuracy [OF demo_accuracy_contract _ _ p]) simp_all
  then show ?thesis unfolding c by simp
qed

text \<open>
  C8. A text all of whose tokens are absent from the embedding vocabulary makes
  the Word2Vec path of \<open>predict_language\<close> fail, for a model whose \<open>predict\<close> rejects
  the one-dimensional array \<^verbatim>\<open>[nan]\<close>, as scikit-learn's linear classifiers do.
  With the global bound to a dictionary no token is kept, the mean of the empty
  list is that array, and \<open>predict\<close> raises; with the global unbound the first
  token raises \<open>NameError\<close>, and a text without token again reaches \<open>predict\<close> with
  that array.
\<close>

theorem predict_language_all_tokens_unknown:
  assumes "\<exists>e. predict S model Nan1D = Inl e"
    and "\<forall>d. word2vec = Some d \<longrightarrow>
           (\<forall>w \<in> set (word_tokenize T (str_lower T text)). w \<notin> fst ` set d)"
  shows "\<exists>e. predict_language S T word2vec text model ''word2vec'' = Inl e"
proof (cases word2vec)
  case None
  show ?thesis
  proof (cases "word_tokenize T (str_lower T text) = []")
    case True
    with None assms(1) show ?thesis
      by (auto simp: predict_language_def np_mean_def)
  next
    case False
    with None show ?thesis
      by (simp add: predict_language_def known_vectors_unbound)
  qed
next
  case (Some d)
  with assms(2) have "\<forall>w \<in> set (word_tokenize T (str_lower T text)). map_of d w = None"
    by (simp add: map_of_eq_None_iff)
  then have "known_vectors (Some d) (word_tokenize T (str_lower T text)) = Inr []"
    by (rule known_vectors_all_absent)
  with Some assms(1) show ?thesis
    by (auto simp: predict_language_def np_mean_def)
qed

theorem predict_language_all_tokens_unknown_witness:
  "\<exists>e. predict_language demo_sklearn demo_text (Some demo_word2vec) ''guten tag'' (Texts [], [])
          ''word2vec'' = Inl e"
proof (rule predict_language_all_tokens_unknown)
  show "\<exists>e. predict demo_sklearn (Texts [], []) Nan1D = Inl e"
    by (simp add: demo_sklearn_def demo_predict_def)
  have tokens: "word_tokenize demo_text (str_lower demo_text ''guten tag'') = [''guten'', ''tag'']"
    by code_simp
  show "\<forall>d. Some demo_word2vec = Some d \<longrightarrow>
          (\<forall>w \<in> set (word_tokenize demo_text (str_lower demo_text ''guten tag'')).
             w \<notin> fst ` set d)"
    unfolding tokens by (simp add: demo_word2vec_def)
qed

text \<open>
  C10, as amended. In the notebook the name \<^verbatim>\<open>word2vec\<close> is unbound, and
  \<open>predict_language\<close> looks the vectors up under that name, not in the model: for
  every text with at least one token the Word2Vec path raises \<open>NameError\<close>,
  whatever the model is.
\<close>

theorem predict_language_word2vec_unbound:
  assumes "word_tokenize T (str_lower T text) \<noteq> []"
  shows "predict_language S T notebook_word2vec text model ''word2vec'' = Inl NameError"
  using assms by (simp add: predict_language_def notebook_word2vec_def known_vectors_unbound)

theorem predict_language_word2vec_unbound_witness:
  "predict_language demo_sklearn demo_text notebook_word2vec ''hello there'' (Texts [], [])
     ''word2vec'' = Inl NameError"
proof (rule predict_language_word2vec_unbound)
  show "word_tokenize demo_text (str_lower demo_text ''hello there'') \<noteq> []"
    by code_simp
qed

text \<open>
  C10, as stated, fails: not every call raises \<open>NameError\<close>. For the empty text
  the comprehension has no token to test, the name is never resolved, and the
  call goes on to \<open>predict\<close> with the mean of the empty list; what it returns
  or raises is then the model's doing.
\<close>

theorem predict_language_no_token_no_name_error:
  "predict_language demo_sklearn demo_text notebook_word2vec '''' (Texts [], []) ''word2vec''
     \<noteq> Inl NameError"
  by code_simp

end
